theory Spec2Isabelle
  imports
    Complex_Main
    "HOL-Library.Char_ord"
    "HOL-Library.List_Lexorder"
    "HOL-Library.Multiset"
    "HOL-Library.Sublist"
begin

section \<open>Text, character classes and pattern search\<close>

text \<open>
  Text is a list of characters with code points below 256. On that range the
  class \<open>\d\<close> of Python's \<open>re\<close> (for \<open>str\<close> patterns) holds exactly the ten ASCII
  digits, and \<open>\s\<close> holds the code points 9..13, 28..32, 133 and 160.
\<close>

definition is_digit :: "char \<Rightarrow> bool" where
  "is_digit c = (let n = (of_char c :: nat) in 48 \<le> n \<and> n \<le> 57)"

definition is_space :: "char \<Rightarrow> bool" where
  "is_space c =
     (let n = (of_char c :: nat)
      in (9 \<le> n \<and> n \<le> 13) \<or> (28 \<le> n \<and> n \<le> 32) \<or> n = 133 \<or> n = 160)"

definition is_rate_char :: "char \<Rightarrow> bool" where
  \<comment> \<open>the class \<open>[\d.]\<close>\<close>
  "is_rate_char c = (is_digit c \<or> c = CHR ''.'')"

definition digit_val :: "char \<Rightarrow> nat" where
  "digit_val c = of_char c - 48"

definition py_int :: "string \<Rightarrow> nat" where
  \<comment> \<open>\<open>int(s)\<close> on a string of decimal digits, which is all a \<open>(\d+)\<close> group holds.
      The interpreter's configurable cap on the length of such a string (4300 digits
      unless set otherwise) is not part of the model.\<close>
  "py_int s = foldl (\<lambda>a c. 10 * a + digit_val c) 0 s"

definition quote :: "string \<Rightarrow> string" where
  \<comment> \<open>\<open>repr(s)\<close> of a string holding no quote and no escape: the text between apostrophes\<close>
  "quote s = [CHR 0x27] @ s @ [CHR 0x27]"

definition py_float :: "string \<Rightarrow> string + rat" where
  \<comment> \<open>\<open>float(s)\<close> on a non-empty string of digits and dots, which is all a
      \<open>([\d.]+)\<close> group holds: at most one dot and at least one digit, else
      ValueError (\<open>Inl\<close> its message). The value is the exact decimal; the
      rounding to a binary float is not part of the model.\<close>
  "py_float s =
     (let ip = takeWhile is_digit s; rest = dropWhile is_digit s
      in case rest of
           [] \<Rightarrow> if ip = [] then Inl (''could not convert string to float: '' @ quote s)
                 else Inr (of_nat (py_int ip))
         | c # fp \<Rightarrow>
             if c = CHR ''.'' \<and> list_all is_digit fp \<and> (ip \<noteq> [] \<or> fp \<noteq> [])
             then Inr (of_nat (py_int ip) + of_nat (py_int fp) / 10 ^ length fp)
             else Inl (''could not convert string to float: '' @ quote s))"

fun strip_prefix :: "string \<Rightarrow> string \<Rightarrow> string option" where
  "strip_prefix [] s = Some s"
| "strip_prefix (p # ps) [] = None"
| "strip_prefix (p # ps) (c # cs) = (if p = c then strip_prefix ps cs else None)"

fun re_search :: "(string \<Rightarrow> 'a option) \<Rightarrow> string \<Rightarrow> 'a option" where
  \<comment> \<open>\<open>re.search\<close>: the match at the leftmost position where the pattern matches,
      the end of the text included\<close>
  "re_search m [] = m []"
| "re_search m (c # cs) = (case m (c # cs) of Some g \<Rightarrow> Some g | None \<Rightarrow> re_search m cs)"

text \<open>
  The patterns of the source, matched at the start of a text. In each of them a
  greedy run of one class is followed by a character outside that class (or by
  nothing), so only the longest run can match and backtracking finds nothing else.
\<close>

definition match_name :: "string \<Rightarrow> (string \<times> string) option" where
  \<comment> \<open>\<open>behavior_log_(\d+)_(\d+)\.log\<close>\<close>
  "match_name s =
     (case strip_prefix ''behavior_log_'' s of
        None \<Rightarrow> None
      | Some t \<Rightarrow>
          (let g1 = takeWhile is_digit t
           in if g1 = [] then None
              else case strip_prefix ''_'' (dropWhile is_digit t) of
                     None \<Rightarrow> None
                   | Some u \<Rightarrow>
                       (let g2 = takeWhile is_digit u
                        in if g2 = [] then None
                           else case strip_prefix ''.log'' (dropWhile is_digit u) of
                                  None \<Rightarrow> None
                                | Some _ \<Rightarrow> Some (g1, g2))))"

definition match_count :: "string \<Rightarrow> string \<Rightarrow> string option" where
  \<comment> \<open>\<open>label\s*(\d+)\<close>\<close>
  "match_count label s =
     (case strip_prefix label s of
        None \<Rightarrow> None
      | Some t \<Rightarrow>
          (let g = takeWhile is_digit (dropWhile is_space t)
           in if g = [] then None else Some g))"

definition match_rate :: "string \<Rightarrow> string option" where
  \<comment> \<open>\<open>Success rate:\s*([\d.]+)\<close>\<close>
  "match_rate s =
     (case strip_prefix ''Success rate:'' s of
        None \<Rightarrow> None
      | Some t \<Rightarrow>
          (let g = takeWhile is_rate_char (dropWhile is_space t)
           in if g = [] then None else Some g))"

section \<open>The aggregator: parsing one log file\<close>

text \<open>
  The dictionary returned for a parsed file, with its five keys; the key \<open>instance\<close>
  is the field \<open>inst\<close>. The counts and indices come from runs of digits, so they are
  natural numbers.
\<close>

record log_result =
  repeat :: nat
  inst :: nat
  success_trials :: nat
  total_trials :: nat
  success_rate :: rat

datatype file_read =
    ReadError string  \<comment> \<open>opening or reading raised; the exception's text\<close>
  | Content string

definition log_dir :: string where
  "log_dir = ''/mnt/public/quanlu''"

definition success_trials_match :: "string \<Rightarrow> string option" where
  "success_trials_match content = re_search (match_count ''Total success trials:'') content"

definition total_trials_match :: "string \<Rightarrow> string option" where
  "total_trials_match content = re_search (match_count ''Total trials:'') content"

definition success_rate_match :: "string \<Rightarrow> string option" where
  "success_rate_match content = re_search match_rate content"

definition error_line :: "string \<Rightarrow> string \<Rightarrow> string" where
  \<comment> \<open>\<open>f"Error parsing {log_path}: {e}"\<close>, the path being the directory joined with the name\<close>
  "error_line name e = ''Error parsing '' @ log_dir @ ''/'' @ name @ '': '' @ e"

definition parse_log_file :: "string \<Rightarrow> file_read \<Rightarrow> log_result option \<times> string list" where
  \<comment> \<open>the file's name and what reading it gives; returns the record, if any, and
      the lines printed to the error stream\<close>
  "parse_log_file name rd =
     (case rd of
        ReadError e \<Rightarrow> (None, [error_line name e])
      | Content content \<Rightarrow>
          (case re_search match_name name of
             None \<Rightarrow> (None, [])
           | Some (g1, g2) \<Rightarrow>
               (case (success_trials_match content, total_trials_match content,
                      success_rate_match content) of
                  (Some s, Some t, Some q) \<Rightarrow>
                    (case py_float q of
                       Inl e \<Rightarrow> (None, [error_line name e])
                     | Inr x \<Rightarrow>
                         (Some \<lparr>repeat = py_int g1, inst = py_int g2,
                                success_trials = py_int s, total_trials = py_int t,
                                success_rate = x\<rparr>, []))
                | _ \<Rightarrow> (None, []))))"

section \<open>The aggregator: scanning, grouping and the report\<close>

definition glob_match :: "string \<Rightarrow> bool" where
  \<comment> \<open>the glob \<open>behavior_log_*.log\<close> on a file name\<close>
  "glob_match name =
     (case strip_prefix ''behavior_log_'' name of
        None \<Rightarrow> False
      | Some t \<Rightarrow> suffix ''.log'' t)"

fun parse_all :: "(string \<times> file_read) list \<Rightarrow> log_result list \<times> string list" where
  \<comment> \<open>the loop over \<open>log_files\<close>: the kept records and the error stream\<close>
  "parse_all [] = ([], [])"
| "parse_all ((name, rd) # fs) =
     (case parse_log_file name rd of
        (result, err) \<Rightarrow>
          (case parse_all fs of
             (results, errs) \<Rightarrow>
               ((case result of Some r \<Rightarrow> r # results | None \<Rightarrow> results), err @ errs)))"

text \<open>
  \<open>by_instance\<close> is a \<open>defaultdict(list)\<close>: an association list in insertion order,
  where a missing key reads as the empty list.
\<close>

fun dict_append :: "(nat \<times> 'a list) list \<Rightarrow> nat \<Rightarrow> 'a \<Rightarrow> (nat \<times> 'a list) list" where
  "dict_append [] k v = [(k, [v])]"
| "dict_append ((k', vs) # d) k v =
     (if k' = k then (k', vs @ [v]) # d else (k', vs) # dict_append d k v)"

definition dict_get :: "(nat \<times> 'a list) list \<Rightarrow> nat \<Rightarrow> 'a list" where
  "dict_get d k = (case map_of d k of None \<Rightarrow> [] | Some vs \<Rightarrow> vs)"

definition by_instance :: "log_result list \<Rightarrow> (nat \<times> log_result list) list" where
  "by_instance results = foldl (\<lambda>d r. dict_append d (inst r) r) [] results"

definition sorted_instances :: "log_result list \<Rightarrow> nat list" where
  "sorted_instances results = sort (map fst (by_instance results))"

datatype status = SUCCESS | FAILED

text \<open>
  A printed line of the report carries the values it formats; the padding and the
  rounding of the number formats are not part of the model. The status labels are
  the words SUCCESS and FAILED after a check mark and a cross.
\<close>

datatype report_row =
  Row (row_instance: nat) (row_repeat: nat) (row_success: nat) (row_total: nat)
      (row_rate: rat) (row_status: status)

datatype out_line =
    Text string
  | RowLine report_row
  | InstanceSummary nat nat nat rat
  | Overall nat nat rat

definition row :: "nat \<Rightarrow> log_result \<Rightarrow> report_row" where
  "row instance result =
     Row instance (repeat result) (success_trials result) (total_trials result)
       (success_rate result) (if success_rate result > 0 then SUCCESS else FAILED)"

definition report_rows :: "log_result list \<Rightarrow> report_row list" where
  "report_rows results =
     concat (map (\<lambda>instance.
                    map (row instance) (sort_key repeat (dict_get (by_instance results) instance)))
                 (sorted_instances results))"

definition rate :: "nat \<Rightarrow> nat \<Rightarrow> rat" where
  \<comment> \<open>\<open>(success / total * 100) if total > 0 else 0.0\<close>, as an exact fraction\<close>
  "rate s t = (if t > 0 then of_nat s / of_nat t * 100 else 0)"

definition instance_summary :: "log_result list \<Rightarrow> nat \<Rightarrow> out_line" where
  "instance_summary results instance =
     (let instance_results = dict_get (by_instance results) instance;
          inst_success = sum_list (map success_trials instance_results);
          inst_total = sum_list (map total_trials instance_results)
      in InstanceSummary instance inst_success inst_total (rate inst_success inst_total))"

definition overall :: "log_result list \<Rightarrow> out_line" where
  "overall results =
     (let total_success = sum_list (map success_trials results);
          total_count = sum_list (map total_trials results)
      in Overall total_success total_count (rate total_success total_count))"

definition ljust :: "nat \<Rightarrow> string \<Rightarrow> string" where
  "ljust n s = s @ replicate (n - length s) (CHR '' '')"

definition report :: "log_result list \<Rightarrow> out_line list" where
  "report results =
     [Text (CHR 0x0A # replicate 80 (CHR ''='')),
      Text ''ZQL Evaluation Results Summary'',
      Text (replicate 80 (CHR ''='')),
      Text (CHR 0x0A # ljust 10 ''Instance'' @ '' '' @ ljust 8 ''Repeat'' @ '' '' @
            ljust 10 ''Success'' @ '' '' @ ljust 8 ''Total'' @ '' '' @ ljust 10 ''Rate'' @ '' '' @
            ljust 10 ''Status''),
      Text (replicate 80 (CHR ''-''))]
     @ map RowLine (report_rows results)
     @ [Text (CHR 0x0A # replicate 80 (CHR ''-'')),
        Text ''Summary Statistics:'',
        Text (replicate 80 (CHR ''-'')),
        Text (CHR 0x0A # ''Per-Instance Summary:'')]
     @ map (instance_summary results) (sorted_instances results)
     @ [overall results,
        Text (replicate 80 (CHR ''='') @ [CHR 0x0A])]"

record run_result =
  stdout :: "out_line list"
  stderr :: "string list"
  exit_code :: int

definition log_files :: "(string \<times> file_read) list \<Rightarrow> (string \<times> file_read) list" where
  \<comment> \<open>\<open>sorted(log_dir.glob("behavior_log_*.log"))\<close>: the directory is given as its
      entries, in the order the file system lists them, each name with what reading
      that file gives\<close>
  "log_files dir = sort_key fst (filter (\<lambda>(name, rd). glob_match name) dir)"

definition main :: "(string \<times> file_read) list \<Rightarrow> run_result" where
  "main dir =
     (if log_files dir = []
      then \<lparr>stdout = [], stderr = [''No log files found in '' @ log_dir], exit_code = 1\<rparr>
      else case parse_all (log_files dir) of
             (results, errs) \<Rightarrow>
               if results = []
               then \<lparr>stdout = [],
                     stderr = errs @ [''No valid results found in log files''],
                     exit_code = 1\<rparr>
               else \<lparr>stdout = report results, stderr = errs, exit_code = 0\<rparr>)"

section \<open>The runner\<close>

function str_nat :: "nat \<Rightarrow> string" where
  \<comment> \<open>\<open>str(n)\<close> of a non-negative integer: its decimal digits\<close>
  "str_nat n =
     (if n < 10 then [char_of (48 + n)]
      else str_nat (n div 10) @ [char_of (48 + n mod 10)])"
  by pat_completeness auto
termination
  by (relation "measure id") auto

declare str_nat.simps [simp del]

definition str_int :: "int \<Rightarrow> string" where
  "str_int c = (if c < 0 then CHR ''-'' # str_nat (nat (- c)) else str_nat (nat c))"

fun join :: "string list \<Rightarrow> string" where
  \<comment> \<open>\<open>' '.join(cmd)\<close>\<close>
  "join [] = []"
| "join [x] = x"
| "join (x # y # ys) = x @ '' '' @ join (y # ys)"

definition zql_eval_path :: string where
  "zql_eval_path = ''/opt/BEHAVIOR-1K/OmniGibson/omnigibson/learning/zql_eval.py''"

definition base_args :: "string list" where
  "base_args =
     [''policy=websocket'',
      ''task.name=turning_on_radio'',
      ''env_wrapper._target_=behavior.learning.wrappers.RGBWrapper'']"

definition log_path :: "nat \<Rightarrow> nat \<Rightarrow> string" where
  "log_path r i = ''/mnt/public/quanlu/behavior_log_'' @ str_nat r @ ''_'' @ str_nat i"

definition log_file :: "nat \<Rightarrow> nat \<Rightarrow> string" where
  "log_file r i = ''/mnt/public/quanlu/behavior_log_'' @ str_nat r @ ''_'' @ str_nat i @ ''.log''"

definition cmd :: "string \<Rightarrow> nat \<Rightarrow> nat \<Rightarrow> string list" where
  \<comment> \<open>\<open>exe\<close> is \<open>sys.executable\<close>\<close>
  "cmd exe r i =
     [exe, zql_eval_path, ''--instance_index'', str_nat i] @ base_args
     @ [''log_path='' @ log_path r i]"

datatype event =
    Print string
  | Run "string list" string
    \<comment> \<open>the child started with this command (and CUDA_VISIBLE_DEVICES=0), both of its
        output streams written to this file, and waited for\<close>

datatype child_result =
    OpenError   \<comment> \<open>the log file could not be opened for writing: no child is started\<close>
  | Exited int  \<comment> \<open>the child's return code\<close>

datatype ending =
    Completed    \<comment> \<open>the loop ran to its end\<close>
  | SysExit int  \<comment> \<open>\<open>sys.exit\<close> called with this code\<close>
  | Uncaught     \<comment> \<open>an exception nobody catches\<close>


text \<open>
  The child is an opaque program: \<open>child r i\<close> is what happens when the cell of
  repeat \<open>r\<close> and instance \<open>i\<close> is run. The inner loop runs the instances of one
  repeat, the outer loop the repeats still to go.
\<close>

fun inner_loop ::
  "string \<Rightarrow> (nat \<Rightarrow> nat \<Rightarrow> child_result) \<Rightarrow> nat \<Rightarrow> nat list \<Rightarrow> event list \<times> ending" where
  "inner_loop exe child r [] = ([], Completed)"
| "inner_loop exe child r (i # is) =
     (let announce =
            [Print (''[run_zql_batch] Running: CUDA_VISIBLE_DEVICES=0 '' @ join (cmd exe r i)),
             Print (''[run_zql_batch] Logging to: '' @ log_file r i)]
      in case child r i of
           OpenError \<Rightarrow> (announce, Uncaught)
         | Exited returncode \<Rightarrow>
             if returncode \<noteq> 0
             then (announce @
                   [Run (cmd exe r i) (log_file r i),
                    Print (''[run_zql_batch] Command failed with code '' @ str_int returncode
                           @ '', aborting.''),
                    Print (''[run_zql_batch] Check log file: '' @ log_file r i)],
                   SysExit returncode)
             else (case inner_loop exe child r is of
                     (evs, e) \<Rightarrow> (announce @ Run (cmd exe r i) (log_file r i) # evs, e)))"

fun outer_loop ::
  "string \<Rightarrow> (nat \<Rightarrow> nat \<Rightarrow> child_result) \<Rightarrow> nat \<Rightarrow> nat list \<Rightarrow> nat list
     \<Rightarrow> event list \<times> ending" where
  "outer_loop exe child outer_repeats instance_range [] = ([], Completed)"
| "outer_loop exe child outer_repeats instance_range (r # rs) =
     (let header = Print (''[run_zql_batch] Repeat '' @ str_nat (r + 1) @ ''/''
                          @ str_nat outer_repeats)
      in case inner_loop exe child r instance_range of
           (evs, Completed) \<Rightarrow>
             (case outer_loop exe child outer_repeats instance_range rs of
                (evs', e) \<Rightarrow> (header # evs @ evs', e))
         | (evs, e) \<Rightarrow> (header # evs, e))"

definition run_grid ::
  "string \<Rightarrow> (nat \<Rightarrow> nat \<Rightarrow> child_result) \<Rightarrow> nat \<Rightarrow> nat list \<Rightarrow> event list \<times> ending" where
  "run_grid exe child outer_repeats instance_range =
     outer_loop exe child outer_repeats instance_range [0..<outer_repeats]"

definition run_zql_batch :: "string \<Rightarrow> (nat \<Rightarrow> nat \<Rightarrow> child_result) \<Rightarrow> event list \<times> ending" where
  \<comment> \<open>\<open>main\<close> of the runner: four repeats of the instances 10 to 18\<close>
  "run_zql_batch exe child = run_grid exe child 4 [10..<19]"

fun runs :: "event list \<Rightarrow> (string list \<times> string) list" where
  \<comment> \<open>the children started, in order: command and log file\<close>
  "runs [] = []"
| "runs (Print s # evs) = runs evs"
| "runs (Run c f # evs) = (c, f) # runs evs"

definition grid_cells :: "nat \<Rightarrow> nat list \<Rightarrow> (nat \<times> nat) list" where
  \<comment> \<open>the order the specification gives: repeats outermost, instances innermost\<close>
  "grid_cells R I = concat (map (\<lambda>r. map (\<lambda>i. (r, i)) I) [0..<R])"

section \<open>Notions used to state the properties\<close>

fun no_match_before :: "(string \<Rightarrow> 'a option) \<Rightarrow> string \<Rightarrow> string \<Rightarrow> bool" where
  \<comment> \<open>the pattern matches at no position inside \<open>pre\<close>, in the text \<open>pre @ rest\<close>\<close>
  "no_match_before m [] rest = True"
| "no_match_before m (c # cs) rest = (m (c # cs @ rest) = None \<and> no_match_before m cs rest)"

definition marker_lines :: string where
  "marker_lines =
     ''Total success trials: 8'' @ [CHR 0x0A] @
     ''Total trials: 10'' @ [CHR 0x0A] @
     ''Success rate: 80.00'' @ [CHR 0x0A]"


definition row_before :: "report_row \<Rightarrow> report_row \<Rightarrow> bool" where
  \<comment> \<open>ascending instance, and ascending repeat within one instance\<close>
  "row_before a b =
     (row_instance a < row_instance b
      \<or> (row_instance a = row_instance b \<and> row_repeat a \<le> row_repeat b))"

definition record_a :: log_result where
  "record_a = \<lparr>repeat = 1, inst = 3, success_trials = 1, total_trials = 2, success_rate = 50\<rparr>"

definition record_b :: log_result where
  "record_b = \<lparr>repeat = 0, inst = 3, success_trials = 0, total_trials = 2, success_rate = 0\<rparr>"

definition record_c :: log_result where
  "record_c = \<lparr>repeat = 1, inst = 1, success_trials = 2, total_trials = 2, success_rate = 1 / 100\<rparr>"

text \<open>The events of the runner, cell by cell.\<close>

definition announcement :: "string \<Rightarrow> nat \<Rightarrow> nat \<Rightarrow> event list" where
  "announcement exe r i =
     [Print (''[run_zql_batch] Running: CUDA_VISIBLE_DEVICES=0 '' @ join (cmd exe r i)),
      Print (''[run_zql_batch] Logging to: '' @ log_file r i)]"

definition cell_events :: "string \<Rightarrow> nat \<Rightarrow> nat \<Rightarrow> event list" where
  "cell_events exe r i = announcement exe r i @ [Run (cmd exe r i) (log_file r i)]"

definition repeat_header :: "nat \<Rightarrow> nat \<Rightarrow> event" where
  "repeat_header R r = Print (''[run_zql_batch] Repeat '' @ str_nat (r + 1) @ ''/'' @ str_nat R)"

definition failure_report :: "nat \<Rightarrow> nat \<Rightarrow> int \<Rightarrow> event list" where
  "failure_report r i c =
     [Print (''[run_zql_batch] Command failed with code '' @ str_int c @ '', aborting.''),
      Print (''[run_zql_batch] Check log file: '' @ log_file r i)]"

definition invocation :: "string \<Rightarrow> nat \<times> nat \<Rightarrow> string list \<times> string" where
  "invocation exe cell = (cmd exe (fst cell) (snd cell), log_file (fst cell) (snd cell))"

section \<open>Properties of parsing one log file\<close>

lemma re_search_skip:
  "no_match_before m pre rest \<Longrightarrow> re_search m (pre @ rest) = re_search m rest"
  by (induction pre) simp_all

lemma re_search_here: "m s = Some g \<Longrightarrow> re_search m s = Some g"
  by (cases s) simp_all

lemma success_trials_at_marker_lines:
  "success_trials_match (marker_lines @ post) = Some ''8''"
  by (simp add: success_trials_match_def marker_lines_def match_count_def is_digit_def is_space_def)

lemma total_trials_at_marker_lines:
  "total_trials_match (marker_lines @ post) = Some ''10''"
  by (simp add: total_trials_match_def marker_lines_def match_count_def is_digit_def is_space_def)

lemma success_rate_at_marker_lines:
  "success_rate_match (marker_lines @ post) = Some ''80.00''"
  by (simp add: success_rate_match_def marker_lines_def match_rate_def is_digit_def is_space_def
      is_rate_char_def)

lemma name_2_5: "re_search match_name ''behavior_log_2_5.log'' = Some (''2'', ''5'')"
  by (simp add: match_name_def is_digit_def)

lemma float_80: "py_float ''80.00'' = Inr 80"
  by (simp add: py_float_def is_digit_def py_int_def digit_val_def)

lemma parse_all_append:
  "parse_all (fs @ gs) =
     (fst (parse_all fs) @ fst (parse_all gs), snd (parse_all fs) @ snd (parse_all gs))"
  by (induction fs) (auto split: prod.splits option.splits)

text \<open>
  C3: the file \<open>behavior_log_2_5.log\<close> whose text holds the three marker lines
  "Total success trials: 8", "Total trials: 10" and "Success rate: 80.00" parses to the
  record of repeat 2, instance 5, 8 successes, 10 trials and rate 80.00, with nothing on
  the error stream. The lines may stand between any other text, as long as no marker
  pattern matches earlier in the file (a search returns its first match).
\<close>

theorem parse_marker_lines:
  assumes "no_match_before (match_count ''Total success trials:'') pre (marker_lines @ post)"
    and "no_match_before (match_count ''Total trials:'') pre (marker_lines @ post)"
    and "no_match_before match_rate pre (marker_lines @ post)"
  shows "parse_log_file ''behavior_log_2_5.log'' (Content (pre @ marker_lines @ post)) =
           (Some \<lparr>repeat = 2, inst = 5, success_trials = 8, total_trials = 10,
                  success_rate = 80\<rparr>, [])"
proof -
  have s: "success_trials_match (pre @ marker_lines @ post) = Some ''8''"
    using re_search_skip [OF assms(1)] success_trials_at_marker_lines [of post]
    by (simp add: success_trials_match_def)
  have t: "total_trials_match (pre @ marker_lines @ post) = Some ''10''"
    using re_search_skip [OF assms(2)] total_trials_at_marker_lines [of post]
    by (simp add: total_trials_match_def)
  have q: "success_rate_match (pre @ marker_lines @ post) = Some ''80.00''"
    using re_search_skip [OF assms(3)] success_rate_at_marker_lines [of post]
    by (simp add: success_rate_match_def)
  show ?thesis
    unfolding parse_log_file_def name_2_5
    by (simp add: s t q float_80 py_int_def digit_val_def)
qed

theorem parse_marker_lines_witness:
  "parse_log_file ''behavior_log_2_5.log'' (Content marker_lines) =
     (Some \<lparr>repeat = 2, inst = 5, success_trials = 8, total_trials = 10, success_rate = 80\<rparr>, [])
   \<and> no_match_before (match_count ''Total success trials:'') ''Trial 7 done. ''
        (marker_lines @ ''Bye'')
   \<and> no_match_before (match_count ''Total trials:'') ''Trial 7 done. '' (marker_lines @ ''Bye'')
   \<and> no_match_before match_rate ''Trial 7 done. '' (marker_lines @ ''Bye'')
   \<and> parse_log_file ''behavior_log_2_5.log''
        (Content (''Trial 7 done. '' @ marker_lines @ ''Bye'')) =
     (Some \<lparr>repeat = 2, inst = 5, success_trials = 8, total_trials = 10, success_rate = 80\<rparr>, [])"
proof -
  have a: "no_match_before (match_count ''Total success trials:'') ''Trial 7 done. ''
             (marker_lines @ ''Bye'')"
    by (simp add: match_count_def)
  have b: "no_match_before (match_count ''Total trials:'') ''Trial 7 done. ''
             (marker_lines @ ''Bye'')"
    by (simp add: match_count_def)
  have c: "no_match_before match_rate ''Trial 7 done. '' (marker_lines @ ''Bye'')"
    by (simp add: match_rate_def)
  have e: "no_match_before m [] rest" for m :: "string \<Rightarrow> string option" and rest
    by simp
  show ?thesis
    using parse_marker_lines [OF a b c] parse_marker_lines [OF e e e, of "[]"] a b c
    by simp
qed

text \<open>
  C4: when the text of a file was read and any one of the three markers is absent from
  it, parsing gives no record and prints nothing on the error stream, whichever marker
  is the missing one (and whatever the name of the file).
\<close>

theorem missing_marker_silent:
  assumes "success_trials_match content = None \<or> total_trials_match content = None
           \<or> success_rate_match content = None"
  shows "parse_log_file name (Content content) = (None, [])"
  using assms by (auto simp: parse_log_file_def split: option.splits)

theorem missing_marker_silent_witness:
  "re_search match_name ''behavior_log_2_5.log'' = Some (''2'', ''5'')
   \<and> success_trials_match ''Total trials: 10 Success rate: 80.00'' = None
   \<and> parse_log_file ''behavior_log_2_5.log'' (Content ''Total trials: 10 Success rate: 80.00'')
       = (None, [])
   \<and> total_trials_match ''Total success trials: 8 Success rate: 80.00'' = None
   \<and> parse_log_file ''behavior_log_2_5.log''
        (Content ''Total success trials: 8 Success rate: 80.00'') = (None, [])
   \<and> success_rate_match ''Total success trials: 8 Total trials: 10'' = None
   \<and> parse_log_file ''behavior_log_2_5.log'' (Content ''Total success trials: 8 Total trials: 10'')
       = (None, [])"
proof -
  have a: "success_trials_match ''Total trials: 10 Success rate: 80.00'' = None"
    by (simp add: success_trials_match_def match_count_def)
  have b: "total_trials_match ''Total success trials: 8 Success rate: 80.00'' = None"
    by (simp add: total_trials_match_def match_count_def)
  have c: "success_rate_match ''Total success trials: 8 Total trials: 10'' = None"
    by (simp add: success_rate_match_def match_rate_def)
  show ?thesis
    using missing_marker_silent [of "''Total trials: 10 Success rate: 80.00''"
        "''behavior_log_2_5.log''"]
      missing_marker_silent [of "''Total success trials: 8 Success rate: 80.00''"
        "''behavior_log_2_5.log''"]
      missing_marker_silent [of "''Total success trials: 8 Total trials: 10''"
        "''behavior_log_2_5.log''"]
      a b c name_2_5
    by simp
qed

text \<open>
  C5: a file whose content cannot be read gives no record and exactly one line on the
  error stream, which names the file and the exception; the scan goes on: the files
  before and after it are parsed as they would be without it.
\<close>

theorem unreadable_file_reported:
  "parse_log_file name (ReadError e) =
     (None, [''Error parsing /mnt/public/quanlu/'' @ name @ '': '' @ e])
   \<and> parse_all (fs @ (name, ReadError e) # gs) =
       (fst (parse_all fs) @ fst (parse_all gs),
        snd (parse_all fs) @ [''Error parsing /mnt/public/quanlu/'' @ name @ '': '' @ e]
          @ snd (parse_all gs))"
proof -
  have one: "parse_log_file name (ReadError e) =
     (None, [''Error parsing /mnt/public/quanlu/'' @ name @ '': '' @ e])"
    by (simp add: parse_log_file_def error_line_def log_dir_def)
  have "parse_all ((name, ReadError e) # gs) =
          (fst (parse_all gs),
           [''Error parsing /mnt/public/quanlu/'' @ name @ '': '' @ e] @ snd (parse_all gs))"
    by (simp add: one split: prod.splits)
  then show ?thesis
    using one by (simp add: parse_all_append [of fs])
qed

text \<open>
  C10: there is a readable file with a name of the convention and all three markers in
  its text whose rate, "1.2.3", the rate pattern matches but the conversion to a float
  rejects: parsing gives no record and prints one line on the error stream, the path of
  the reported error and not the silent one of a missing marker.
\<close>

theorem malformed_rate_reported:
  "success_trials_match ''Total success trials: 8 Total trials: 10 Success rate: 1.2.3''
     = Some ''8''
   \<and> total_trials_match ''Total success trials: 8 Total trials: 10 Success rate: 1.2.3''
       = Some ''10''
   \<and> success_rate_match ''Total success trials: 8 Total trials: 10 Success rate: 1.2.3''
       = Some ''1.2.3''
   \<and> parse_log_file ''behavior_log_2_5.log''
        (Content ''Total success trials: 8 Total trials: 10 Success rate: 1.2.3'') =
      (None,
       [''Error parsing /mnt/public/quanlu/behavior_log_2_5.log: could not convert string to float: ''
        @ [CHR 0x27] @ ''1.2.3'' @ [CHR 0x27]])"
  by (simp add: parse_log_file_def success_trials_match_def total_trials_match_def
      success_rate_match_def match_count_def match_rate_def match_name_def is_digit_def
      is_space_def is_rate_char_def py_float_def error_line_def log_dir_def quote_def)

section \<open>Properties of grouping and of the report\<close>

lemma dict_get_dict_append:
  "dict_get (dict_append d k v) k' = (if k' = k then dict_get d k @ [v] else dict_get d k')"
  by (induction d k v rule: dict_append.induct) (auto simp: dict_get_def)

lemma keys_dict_append: "fst ` set (dict_append d k v) = insert k (fst ` set d)"
  by (induction d k v rule: dict_append.induct) auto

lemma distinct_dict_append:
  "distinct (map fst d) \<Longrightarrow> distinct (map fst (dict_append d k v))"
  by (induction d k v rule: dict_append.induct) (auto simp: keys_dict_append)

lemma dict_get_foldl:
  "dict_get (foldl (\<lambda>d r. dict_append d (inst r) r) d rs) k
     = dict_get d k @ filter (\<lambda>r. inst r = k) rs"
  by (induction rs arbitrary: d) (auto simp: dict_get_dict_append)

lemma keys_foldl:
  "fst ` set (foldl (\<lambda>d r. dict_append d (inst r) r) d rs) = fst ` set d \<union> inst ` set rs"
  by (induction rs arbitrary: d) (auto simp: keys_dict_append)

lemma distinct_foldl:
  "distinct (map fst d) \<Longrightarrow> distinct (map fst (foldl (\<lambda>d r. dict_append d (inst r) r) d rs))"
  by (induction rs arbitrary: d) (auto simp: distinct_dict_append)

lemma by_instance_get: "dict_get (by_instance results) k = filter (\<lambda>r. inst r = k) results"
  unfolding by_instance_def dict_get_foldl by (simp add: dict_get_def)

lemma sorted_instances_eq: "sorted_instances results = sorted_list_of_set (inst ` set results)"
proof -
  have "distinct (map fst (by_instance results))"
    by (simp add: by_instance_def distinct_foldl)
  moreover have "set (map fst (by_instance results)) = inst ` set results"
    using keys_foldl [of "[]" results] by (simp add: by_instance_def)
  ultimately show ?thesis
    by (metis sorted_instances_def sorted_list_of_set_sort_remdups distinct_remdups_id)
qed


lemma report_rows_eq:
  "report_rows results =
     concat (map (\<lambda>k. map (row k) (sort_key repeat (filter (\<lambda>r. inst r = k) results)))
                 (sorted_list_of_set (inst ` set results)))"
  by (simp add: report_rows_def sorted_instances_eq by_instance_get)

lemma filter_mset_split:
  "k \<notin> A \<Longrightarrow> filter_mset (\<lambda>r. f r = k \<or> f r \<in> A) M
     = filter_mset (\<lambda>r. f r = k) M + filter_mset (\<lambda>r. f r \<in> A) M"
  by (rule multiset_eqI) auto

lemma mset_blocks:
  "distinct ks \<Longrightarrow>
   mset (concat (map (\<lambda>k. map (row k) (sort_key repeat (filter (\<lambda>r. inst r = k) rs))) ks))
     = image_mset (\<lambda>r. row (inst r) r) (filter_mset (\<lambda>r. inst r \<in> set ks) (mset rs))"
proof (induction ks)
  case Nil
  then show ?case by simp
next
  case (Cons k ks)
  have "image_mset (row k) (filter_mset (\<lambda>r. inst r = k) (mset rs))
        = image_mset (\<lambda>r. row (inst r) r) (filter_mset (\<lambda>r. inst r = k) (mset rs))"
    by (rule image_mset_cong) simp
  with Cons show ?case
    by (simp add: filter_mset_split)
qed

lemma mset_report_rows:
  "mset (report_rows results) = image_mset (\<lambda>r. row (inst r) r) (mset results)"
proof -
  have "filter_mset (\<lambda>r. inst r \<in> inst ` set results) (mset results) = mset results"
    by (rule multiset_eqI) (auto simp: count_eq_zero_iff)
  then show ?thesis
    by (simp add: report_rows_eq mset_blocks)
qed

lemma sorted_blocks:
  assumes "sorted_wrt (<) ks"
  shows "sorted_wrt row_before
           (concat (map (\<lambda>k. map (row k) (sort_key repeat (filter (\<lambda>r. inst r = k) rs))) ks))"
  using assms
proof (induction ks)
  case Nil
  then show ?case by simp
next
  case (Cons k ks)
  have block: "sorted_wrt row_before (map (row k) (sort_key repeat (filter (\<lambda>r. inst r = k) rs)))"
  proof -
    have "sorted (map repeat (sort_key repeat (filter (\<lambda>r. inst r = k) rs)))"
      by simp
    then have "sorted_wrt (\<lambda>a b. repeat a \<le> repeat b) (sort_key repeat (filter (\<lambda>r. inst r = k) rs))"
      by (simp add: sorted_wrt_map)
    then show ?thesis
      by (simp add: sorted_wrt_map row_before_def row_def)
  qed
  have cross: "row_before a b"
    if "a \<in> set (map (row k) (sort_key repeat (filter (\<lambda>r. inst r = k) rs)))"
      and "b \<in> set (concat (map (\<lambda>k. map (row k) (sort_key repeat (filter (\<lambda>r. inst r = k) rs))) ks))"
    for a b
  proof -
    from that(1) have "row_instance a = k" by (auto simp: row_def)
    moreover from that(2) obtain k' where "k' \<in> set ks" "row_instance b = k'"
      by (auto simp: row_def)
    moreover from Cons.prems have "\<forall>k'\<in>set ks. k < k'" by simp
    ultimately show ?thesis by (simp add: row_before_def)
  qed
  from Cons have "sorted_wrt row_before
      (concat (map (\<lambda>k. map (row k) (sort_key repeat (filter (\<lambda>r. inst r = k) rs))) ks))"
    by simp
  with block cross show ?case
    by (simp add: sorted_wrt_append del: set_map set_concat)
qed

lemma sorted_report_rows: "sorted_wrt row_before (report_rows results)"
  unfolding report_rows_eq
  by (rule sorted_blocks) (simp add: strict_sorted_iff [symmetric])

lemma map_sort_key: "map f (sort_key f xs) = sort (map f xs)"
  by (rule properties_for_sort [symmetric]) simp_all

lemma keys_report_rows:
  "map (\<lambda>l. (row_instance l, row_repeat l)) (report_rows results) =
     concat (map (\<lambda>k. map (\<lambda>n. (k, n)) (sort (map repeat (filter (\<lambda>r. inst r = k) results))))
                 (sorted_list_of_set (inst ` set results)))"
proof -
  have "map (\<lambda>l. (row_instance l, row_repeat l)) (map (row k) (sort_key repeat xs))
          = map (\<lambda>n. (k, n)) (sort (map repeat xs))" for k xs
    by (simp add: row_def comp_def map_sort_key [symmetric])
  then show ?thesis
    by (simp add: report_rows_eq map_concat comp_def)
qed


lemma sort_cong_mset: "mset xs = mset ys \<Longrightarrow> sort xs = sort (ys :: nat list)"
  by (rule properties_for_sort) simp_all

lemma keys_permutation:
  assumes "mset results' = mset results"
  shows "map (\<lambda>l. (row_instance l, row_repeat l)) (report_rows results') =
         map (\<lambda>l. (row_instance l, row_repeat l)) (report_rows results)"
proof -
  have "set results' = set results"
    using assms by (rule mset_eq_setD)
  moreover have "sort (map repeat (filter (\<lambda>r. inst r = k) results'))
               = sort (map repeat (filter (\<lambda>r. inst r = k) results))" for k
    by (rule sort_cong_mset) (simp add: assms)
  ultimately show ?thesis
    by (simp add: keys_report_rows)
qed

lemma log_files_permutation:
  assumes "distinct (map fst dir)" and "mset dir' = mset dir"
  shows "log_files dir' = log_files dir"
proof -
  have "mset (map fst dir') = mset (map fst dir)"
    using assms(2) by simp
  then have "distinct (map fst dir')"
    using assms(1) by (metis mset_eq_imp_distinct_iff)
  then have "inj_on fst (set dir')"
    by (simp add: distinct_map)
  then have inj: "inj_on fst (set (filter (\<lambda>(name, rd). glob_match name) dir'))"
    by (rule inj_on_subset) auto
  have "sort_key fst (filter (\<lambda>(name, rd). glob_match name) dir')
          = sort_key fst (filter (\<lambda>(name, rd). glob_match name) dir)"
    by (rule sort_key_inj_key_eq [OF _ inj]) (simp_all add: assms(2))
  then show ?thesis
    by (simp add: log_files_def)
qed




text \<open>
  C7: the lines of the records are in ascending order of instance and, within one
  instance, of repeat; every kept record has its line; the sequence of instances and
  repeats is the same for any reordering of the kept records, and the whole output is
  the same for any order in which the file system lists the directory.
\<close>

theorem report_rows_ordered:
  "sorted_wrt row_before (report_rows results)
   \<and> mset (report_rows results) = image_mset (\<lambda>r. row (inst r) r) (mset results)
   \<and> (mset results' = mset results \<longrightarrow>
        map (\<lambda>l. (row_instance l, row_repeat l)) (report_rows results') =
        map (\<lambda>l. (row_instance l, row_repeat l)) (report_rows results))
   \<and> (distinct (map fst dir) \<and> mset dir' = mset dir \<longrightarrow> main dir' = main dir)"
proof (intro conjI impI)
  show "sorted_wrt row_before (report_rows results)"
    by (rule sorted_report_rows)
  show "mset (report_rows results) = image_mset (\<lambda>r. row (inst r) r) (mset results)"
    by (rule mset_report_rows)
  show "map (\<lambda>l. (row_instance l, row_repeat l)) (report_rows results') =
        map (\<lambda>l. (row_instance l, row_repeat l)) (report_rows results)"
    if "mset results' = mset results"
    using that by (rule keys_permutation)
  show "main dir' = main dir" if "distinct (map fst dir) \<and> mset dir' = mset dir"
  proof -
    from that have "log_files dir' = log_files dir"
      by (intro log_files_permutation) simp_all
    then show ?thesis
      by (simp only: main_def)
  qed
qed


theorem report_rows_ordered_witness:
  "mset [record_c, record_a, record_b] = mset [record_a, record_b, record_c]
   \<and> map (\<lambda>l. (row_instance l, row_repeat l)) (report_rows [record_c, record_a, record_b]) =
     map (\<lambda>l. (row_instance l, row_repeat l)) (report_rows [record_a, record_b, record_c])
   \<and> report_rows [record_a, record_b, record_c] =
       [Row 1 1 2 2 (1 / 100) SUCCESS, Row 3 0 0 2 0 FAILED, Row 3 1 1 2 50 SUCCESS]
   \<and> sorted_wrt row_before (report_rows [record_a, record_b, record_c])
   \<and> distinct (map fst [(''behavior_log_1_3.log'', Content ''x''), (''behavior_log_0_3.log'', ReadError ''y'')])
   \<and> mset [(''behavior_log_0_3.log'', ReadError ''y''), (''behavior_log_1_3.log'', Content ''x'')]
       = mset [(''behavior_log_1_3.log'', Content ''x''), (''behavior_log_0_3.log'', ReadError ''y'')]
   \<and> main [(''behavior_log_0_3.log'', ReadError ''y''), (''behavior_log_1_3.log'', Content ''x'')]
       = main [(''behavior_log_1_3.log'', Content ''x''), (''behavior_log_0_3.log'', ReadError ''y'')]"
proof -
  have p: "mset [record_c, record_a, record_b] = mset [record_a, record_b, record_c]"
    by (simp add: add_mset_commute)
  have d: "distinct (map fst [(''behavior_log_1_3.log'', Content ''x''), (''behavior_log_0_3.log'', ReadError ''y'')])"
    by simp
  have q: "mset [(''behavior_log_0_3.log'', ReadError ''y''), (''behavior_log_1_3.log'', Content ''x'')]
       = mset [(''behavior_log_1_3.log'', Content ''x''), (''behavior_log_0_3.log'', ReadError ''y'')]"
    by (simp add: add_mset_commute)
  have r: "report_rows [record_a, record_b, record_c] =
       [Row 1 1 2 2 (1 / 100) SUCCESS, Row 3 0 0 2 0 FAILED, Row 3 1 1 2 50 SUCCESS]"
    by (simp add: report_rows_def sorted_instances_def by_instance_def dict_get_def row_def
        record_a_def record_b_def record_c_def)
  show ?thesis
    using report_rows_ordered [of "[record_a, record_b, record_c]" "[record_c, record_a, record_b]"
        "[(''behavior_log_1_3.log'', Content ''x''), (''behavior_log_0_3.log'', ReadError ''y'')]"
        "[(''behavior_log_0_3.log'', ReadError ''y''), (''behavior_log_1_3.log'', Content ''x'')]"]
      p d q r
    by simp
qed


text \<open>
  C8: every kept record has a line with its values, labelled SUCCESS if its rate is
  above 0 and FAILED otherwise; on every line of the report the label is SUCCESS exactly
  when the printed rate is above 0, and FAILED exactly when it is 0 or below.
\<close>

theorem status_label:
  "(\<forall>r\<in>set results.
      Row (inst r) (repeat r) (success_trials r) (total_trials r) (success_rate r)
        (if 0 < success_rate r then SUCCESS else FAILED) \<in> set (report_rows results))
   \<and> (\<forall>l\<in>set (report_rows results).
        (row_status l = SUCCESS \<longleftrightarrow> 0 < row_rate l) \<and> (row_status l = FAILED \<longleftrightarrow> row_rate l \<le> 0))"
proof -
  have "set (report_rows results) = (\<lambda>r. row (inst r) r) ` set results"
    using mset_report_rows [of results] by (metis set_image_mset set_mset_mset)
  then show ?thesis
    by (auto simp: row_def)
qed


theorem status_label_witness:
  "report_rows [record_a, record_b, record_c] =
       [Row 1 1 2 2 (1 / 100) SUCCESS, Row 3 0 0 2 0 FAILED, Row 3 1 1 2 50 SUCCESS]
   \<and> Row 3 0 0 2 0 FAILED \<in> set (report_rows [record_a, record_b, record_c])
   \<and> Row 1 1 2 2 (1 / 100) SUCCESS \<in> set (report_rows [record_a, record_b, record_c])
   \<and> (row_status (Row 3 0 0 2 0 FAILED) = FAILED) = (row_rate (Row 3 0 0 2 0 FAILED) \<le> 0)
   \<and> (row_status (Row 1 1 2 2 (1 / 100) SUCCESS) = SUCCESS)
       = (0 < row_rate (Row 1 1 2 2 (1 / 100) SUCCESS))"
proof -
  have r: "report_rows [record_a, record_b, record_c] =
       [Row 1 1 2 2 (1 / 100) SUCCESS, Row 3 0 0 2 0 FAILED, Row 3 1 1 2 50 SUCCESS]"
    by (simp add: report_rows_def sorted_instances_def by_instance_def dict_get_def row_def
        record_a_def record_b_def record_c_def)
  from status_label [of "[record_a, record_b, record_c]"] show ?thesis
    unfolding r by simp
qed


section \<open>Properties of the runner\<close>

lemma inner_loop_Cons:
  "inner_loop exe child r (i # is) =
     (case child r i of
        OpenError \<Rightarrow> (announcement exe r i, Uncaught)
      | Exited c \<Rightarrow>
          if c \<noteq> 0 then (cell_events exe r i @ failure_report r i c, SysExit c)
          else (case inner_loop exe child r is of (evs, e) \<Rightarrow> (cell_events exe r i @ evs, e)))"
  by (simp add: announcement_def cell_events_def failure_report_def Let_def
      split: child_result.splits prod.splits)

lemma outer_loop_Cons:
  "outer_loop exe child R is (r # rs) =
     (case inner_loop exe child r is of
        (evs, Completed) \<Rightarrow>
          (case outer_loop exe child R is rs of (evs', e) \<Rightarrow> (repeat_header R r # evs @ evs', e))
      | (evs, e) \<Rightarrow> (repeat_header R r # evs, e))"
  by (simp add: repeat_header_def Let_def split: prod.splits ending.splits)

lemma runs_append: "runs (xs @ ys) = runs xs @ runs ys"
  by (induction xs rule: runs.induct) simp_all

lemma runs_announcement: "runs (announcement exe r i) = []"
  by (simp add: announcement_def)

lemma runs_cell_events: "runs (cell_events exe r i) = [invocation exe (r, i)]"
  by (simp add: cell_events_def announcement_def invocation_def)

lemma runs_failure_report: "runs (failure_report r i c) = []"
  by (simp add: failure_report_def)

lemma runs_repeat_header: "runs (repeat_header R r # evs) = runs evs"
  by (simp add: repeat_header_def)

lemma runs_cells:
  "runs (concat (map (cell_events exe r) is)) = map (invocation exe) (map (Pair r) is)"
  by (induction "is") (simp_all add: runs_append runs_cell_events)

lemma inner_ok:
  "\<forall>j\<in>set is. child r j = Exited 0 \<Longrightarrow>
   inner_loop exe child r is = (concat (map (cell_events exe r) is), Completed)"
  by (induction "is") (simp_all add: inner_loop_Cons del: inner_loop.simps(2))


lemma outer_ok:
  "\<forall>r\<in>set rs. \<forall>j\<in>set is. child r j = Exited 0 \<Longrightarrow>
   outer_loop exe child R is rs =
     (concat (map (\<lambda>r. repeat_header R r # concat (map (cell_events exe r) is)) rs), Completed)"
  by (induction rs) (simp_all add: inner_ok outer_loop_Cons del: outer_loop.simps(2))


lemma runs_repeats:
  "runs (concat (map (\<lambda>r. repeat_header R r # concat (map (cell_events exe r) is)) rs))
     = map (invocation exe) (concat (map (\<lambda>r. map (Pair r) is) rs))"
  by (induction rs) (simp_all add: runs_append runs_cells runs_repeat_header)


lemma inner_prefix:
  "prefix (runs (fst (inner_loop exe child r is))) (map (invocation exe) (map (Pair r) is))
   \<and> (snd (inner_loop exe child r is) = Completed \<longrightarrow>
        runs (fst (inner_loop exe child r is)) = map (invocation exe) (map (Pair r) is))"
  by (induction "is")
     (auto simp: inner_loop_Cons runs_append runs_cell_events runs_announcement
        runs_failure_report
        split: child_result.splits prod.splits simp del: inner_loop.simps(2))

lemma outer_prefix:
  "prefix (runs (fst (outer_loop exe child R is rs)))
     (map (invocation exe) (concat (map (\<lambda>r. map (Pair r) is) rs)))"
proof (induction rs)
  case Nil
  then show ?case by simp
next
  case (Cons r rs)
  obtain evs e where inner: "inner_loop exe child r is = (evs, e)"
    by (cases "inner_loop exe child r is")
  obtain evs' e' where outer: "outer_loop exe child R is rs = (evs', e')"
    by (cases "outer_loop exe child R is rs")
  show ?case
  proof (cases "e = Completed")
    case True
    with inner inner_prefix [of exe child r "is"]
    have "runs evs = map (invocation exe) (map (Pair r) is)" by simp
    moreover from Cons outer
    have "prefix (runs evs') (map (invocation exe) (concat (map (\<lambda>r. map (Pair r) is) rs)))"
      by simp
    ultimately show ?thesis
      using inner outer True
      by (simp add: outer_loop_Cons runs_append runs_repeat_header del: outer_loop.simps(2))
  next
    case False
    with inner inner_prefix [of exe child r "is"]
    have "prefix (runs evs) (map (invocation exe) (map (Pair r) is))" by simp
    then have "prefix (runs evs)
       (map (invocation exe) (map (Pair r) is) @ map (invocation exe) (concat (map (\<lambda>r. map (Pair r) is) rs)))"
      by (rule prefix_prefix)
    with inner False show ?thesis
      by (cases e) (simp_all add: outer_loop_Cons runs_repeat_header del: outer_loop.simps(2))
  qed
qed

lemma is_digit_char_of: "k < 10 \<Longrightarrow> is_digit (char_of (48 + (k::nat)))"
  by (simp add: is_digit_def Let_def)

lemma digit_val_char_of: "k < 10 \<Longrightarrow> digit_val (char_of (48 + (k::nat))) = k"
  by (simp add: digit_val_def)

lemma digits_str_nat: "\<forall>c\<in>set (str_nat n). is_digit c"
proof (induction n rule: str_nat.induct)
  case (1 n)
  show ?case
  proof (cases "n < 10")
    case True
    then show ?thesis
      by (subst str_nat.simps) (simp add: is_digit_char_of)
  next
    case False
    with 1 show ?thesis
      by (subst str_nat.simps) (simp add: is_digit_char_of)
  qed
qed

lemma str_nat_nonempty: "str_nat n \<noteq> []"
  by (subst str_nat.simps) simp

lemma py_int_snoc: "py_int (s @ [c]) = 10 * py_int s + digit_val c"
  by (simp add: py_int_def)

lemma py_int_str_nat: "py_int (str_nat n) = n"
proof (induction n rule: str_nat.induct)
  case (1 n)
  show ?case
  proof (cases "n < 10")
    case True
    then show ?thesis
      by (subst str_nat.simps) (simp add: py_int_def digit_val_char_of)
  next
    case False
    with 1 have "py_int (str_nat (n div 10)) = n div 10" by simp
    with False show ?thesis
      by (subst str_nat.simps) (simp add: py_int_snoc digit_val_char_of)
  qed
qed

lemma takeWhile_digits:
  "\<forall>c\<in>set ds. is_digit c \<Longrightarrow> \<not> is_digit x \<Longrightarrow> takeWhile is_digit (ds @ x # rest) = ds"
  by (simp add: takeWhile_append2)

lemma dropWhile_digits:
  "\<forall>c\<in>set ds. is_digit c \<Longrightarrow> \<not> is_digit x \<Longrightarrow> dropWhile is_digit (ds @ x # rest) = x # rest"
  by (simp add: dropWhile_append2)

lemma match_name_convention:
  "match_name (''behavior_log_'' @ str_nat r @ ''_'' @ str_nat i @ ''.log'')
     = Some (str_nat r, str_nat i)"
proof -
  have u: "\<not> is_digit (CHR ''_'')" and d: "\<not> is_digit (CHR ''.'')"
    by (simp_all add: is_digit_def)
  have 1: "takeWhile is_digit (str_nat r @ CHR ''_'' # str_nat i @ ''.log'') = str_nat r"
    by (rule takeWhile_digits [OF digits_str_nat u])
  have 2: "dropWhile is_digit (str_nat r @ CHR ''_'' # str_nat i @ ''.log'')
             = CHR ''_'' # str_nat i @ ''.log''"
    by (rule dropWhile_digits [OF digits_str_nat u])
  have 3: "takeWhile is_digit (str_nat i @ CHR ''.'' # ''log'') = str_nat i"
    by (rule takeWhile_digits [OF digits_str_nat d])
  have 4: "dropWhile is_digit (str_nat i @ CHR ''.'' # ''log'') = CHR ''.'' # ''log''"
    by (rule dropWhile_digits [OF digits_str_nat d])
  show ?thesis
    using 1 2 3 4 by (simp add: match_name_def str_nat_nonempty)
qed

lemma search_name_convention:
  "re_search match_name (''behavior_log_'' @ str_nat r @ ''_'' @ str_nat i @ ''.log'')
     = Some (str_nat r, str_nat i)"
  by (rule re_search_here) (rule match_name_convention)

lemma str_nat_2: "str_nat 2 = ''2''"
  by code_simp

lemma str_nat_5: "str_nat 5 = ''5''"
  by code_simp



text \<open>
  C9: the children are started in the order of the grid, repeats outermost and instances
  innermost: what was started is always a prefix of that order, and all of it when every
  child exits with 0. The log file of the cell (r, i) is \<open>behavior_log_r_i.log\<close> in the
  log directory, and the pattern of the aggregator reads r and i back from that name.
\<close>

theorem grid_order_and_log_names:
  "prefix (runs (fst (run_grid exe child R I))) (map (invocation exe) (grid_cells R I))
   \<and> ((\<forall>r<R. \<forall>j\<in>set I. child r j = Exited 0) \<longrightarrow>
        runs (fst (run_grid exe child R I)) = map (invocation exe) (grid_cells R I))
   \<and> invocation exe (r, i) =
       (cmd exe r i,
        ''/mnt/public/quanlu/'' @ ''behavior_log_'' @ str_nat r @ ''_'' @ str_nat i @ ''.log'')
   \<and> re_search match_name (''behavior_log_'' @ str_nat r @ ''_'' @ str_nat i @ ''.log'')
       = Some (str_nat r, str_nat i)
   \<and> py_int (str_nat r) = r \<and> py_int (str_nat i) = i
   \<and> (parse_log_file (''behavior_log_'' @ str_nat r @ ''_'' @ str_nat i @ ''.log'')
         (Content content) = (Some result, errs)
       \<longrightarrow> repeat result = r \<and> inst result = i)"
proof (intro conjI impI)
  show "prefix (runs (fst (run_grid exe child R I))) (map (invocation exe) (grid_cells R I))"
    unfolding run_grid_def grid_cells_def by (rule outer_prefix)
  show "runs (fst (run_grid exe child R I)) = map (invocation exe) (grid_cells R I)"
    if "\<forall>r<R. \<forall>j\<in>set I. child r j = Exited 0"
  proof -
    from that have "\<forall>r\<in>set [0..<R]. \<forall>j\<in>set I. child r j = Exited 0"
      by simp
    from outer_ok [OF this] show ?thesis
      by (simp add: run_grid_def grid_cells_def runs_repeats)
  qed
  show "invocation exe (r, i) =
       (cmd exe r i,
        ''/mnt/public/quanlu/'' @ ''behavior_log_'' @ str_nat r @ ''_'' @ str_nat i @ ''.log'')"
    by (simp add: invocation_def log_file_def)
  show s: "re_search match_name (''behavior_log_'' @ str_nat r @ ''_'' @ str_nat i @ ''.log'')
       = Some (str_nat r, str_nat i)"
    by (rule search_name_convention)
  show "py_int (str_nat r) = r" "py_int (str_nat i) = i"
    by (rule py_int_str_nat)+
  assume p: "parse_log_file (''behavior_log_'' @ str_nat r @ ''_'' @ str_nat i @ ''.log'')
         (Content content) = (Some result, errs)"
  from p show "repeat result = r"
    unfolding parse_log_file_def s
    by (auto simp: py_int_str_nat split: option.splits sum.splits)
  from p show "inst result = i"
    unfolding parse_log_file_def s
    by (auto simp: py_int_str_nat split: option.splits sum.splits)
qed

theorem grid_order_and_log_names_witness:
  "runs (fst (run_grid ''python3'' (\<lambda>r i. Exited 0) 2 [0, 1, 2]))
       = map (invocation ''python3'') [(0, 0), (0, 1), (0, 2), (1, 0), (1, 1), (1, 2)]
   \<and> parse_log_file (''behavior_log_'' @ str_nat 2 @ ''_'' @ str_nat 5 @ ''.log'')
        (Content marker_lines)
       = (Some \<lparr>repeat = 2, inst = 5, success_trials = 8, total_trials = 10, success_rate = 80\<rparr>, [])
   \<and> repeat \<lparr>repeat = 2, inst = 5, success_trials = 8, total_trials = 10, success_rate = 80\<rparr> = 2
   \<and> inst \<lparr>repeat = 2, inst = 5, success_trials = 8, total_trials = 10, success_rate = 80::rat\<rparr> = 5"
proof -
  have g: "grid_cells 2 [0, 1, 2] = [(0, 0), (0, 1), (0, 2), (1, 0), (1, 1), (1, 2)]"
    by (simp add: grid_cells_def upt_rec)
  have p: "parse_log_file (''behavior_log_'' @ str_nat 2 @ ''_'' @ str_nat 5 @ ''.log'')
        (Content marker_lines)
       = (Some \<lparr>repeat = 2, inst = 5, success_trials = 8, total_trials = 10, success_rate = 80\<rparr>, [])"
    by (simp add: str_nat_2 str_nat_5 marker_lines_def parse_log_file_def success_trials_match_def
        total_trials_match_def success_rate_match_def match_count_def match_rate_def match_name_def
        is_digit_def is_space_def is_rate_char_def py_float_def py_int_def digit_val_def)
  show ?thesis
    using grid_order_and_log_names [where R = 2 and I = "[0, 1, 2]" and child = "\<lambda>r i. Exited 0"
        and exe = "''python3''" and r = 2 and i = 5 and content = marker_lines
        and result = "\<lparr>repeat = 2, inst = 5, success_trials = 8, total_trials = 10, success_rate = 80\<rparr>"
        and errs = "[]"] g p
    by simp
qed

end
